theory Spec2Isabelle
  imports Main "HOL-Library.Word"
begin

section \<open>JavaScript strings\<close>

text \<open>
  A JavaScript string is a sequence of UTF-16 code units. \<open>lit\<close> embeds the ASCII
  literals of the source. \<open>String.prototype.trim\<close> strips, at both ends, the code
  units that ECMAScript calls WhiteSpace or LineTerminator; a string is falsy exactly
  when it is empty.
\<close>

type_synonym jsstring = "16 word list"

definition lit :: "string \<Rightarrow> jsstring" where
  "lit s = map of_char s"

definition js_whitespace :: "16 word \<Rightarrow> bool" where
  "js_whitespace c \<longleftrightarrow>
     c = 0x0009 \<or> c = 0x000A \<or> c = 0x000B \<or> c = 0x000C \<or> c = 0x000D \<or> c = 0x0020 \<or>
     c = 0x00A0 \<or> c = 0x1680 \<or> (0x2000 \<le> c \<and> c \<le> 0x200A) \<or> c = 0x2028 \<or>
     c = 0x2029 \<or> c = 0x202F \<or> c = 0x205F \<or> c = 0x3000 \<or> c = 0xFEFF"

definition trim :: "jsstring \<Rightarrow> jsstring" where
  "trim s = rev (dropWhile js_whitespace (rev (dropWhile js_whitespace s)))"

definition substring :: "nat \<Rightarrow> nat \<Rightarrow> jsstring \<Rightarrow> jsstring" where
  \<comment> \<open>\<open>s.substring(i, j)\<close> for \<open>i \<le> j\<close>\<close>
  "substring i j s = take (j - i) (drop i s)"

section \<open>Data model\<close>

text \<open>
  \<open>Document\<close> is the row type of the \<open>documents\<close> table; \<open>title\<close> and \<open>content\<close>
  are nullable, and the view reads one more property, \<open>is_integration\<close>, through a
  cast. The integrations list is untyped in the source; \<open>integration_type\<close> is
  \<open>None\<close> when the property is not a string.
\<close>

record document =
  doc_id :: jsstring
  title :: "jsstring option"
  content :: "jsstring option"
  team_id :: jsstring
  owner_id :: jsstring
  updated_at :: "jsstring option"
  is_integration :: bool

record integration =
  integration_id :: jsstring
  integration_team :: jsstring
  integration_type :: "jsstring option"

record viewed_content =
  viewed_title :: jsstring
  viewed_source :: jsstring
  viewed_type :: jsstring
  viewed_text :: jsstring
  viewed_url :: "jsstring option"

record DocumentManagerProps =
  user_id :: jsstring
  teamId :: jsstring

record err =
  message :: jsstring

datatype variant = Default | Destructive

record toast_args =
  toast_title :: jsstring
  description :: jsstring
  toast_variant :: "variant option"

section \<open>The backend client\<close>

text \<open>
  Every call of the backend client is awaited. The promise either rejects with an
  error or fulfils with an object \<open>{ data, error }\<close>, which the client's types give
  as a union: a payload and no error, or an error and \<open>data = null\<close>.
\<close>

datatype 'a reply = Success 'a | Failure err

datatype 'a settled = Fulfilled 'a | Rejected err

fun error_of :: "'a reply \<Rightarrow> err option" where
  "error_of (Success x) = None"
| "error_of (Failure e) = Some e"

fun data_of :: "'a option reply \<Rightarrow> 'a option" where
  "data_of (Success x) = x"
| "data_of (Failure e) = None"

record auth_user =
  auth_id :: jsstring
  email :: "jsstring option"

record subscription_status =
  subscribed :: bool

record summary_response =
  summary :: "jsstring option"

datatype request =
    Select_documents jsstring
  | Select_integrations jsstring
  | Insert_document jsstring jsstring jsstring jsstring
  | Update_document jsstring "jsstring option" "jsstring option"
  | Delete_document jsstring
  | Auth_getUser
  | Select_owner_privileges jsstring
  | Invoke_check_subscription
  | Invoke_ai_summarize "jsstring option" "jsstring option"

text \<open>
  The backend answers each request; the answer may depend on the request's arguments.
  The last two fields are the texts of the \<open>TypeError\<close>s the engine raises when
  \<open>summary\<close> is read from \<open>null\<close> and when \<open>substring\<close> is read from
  \<open>undefined\<close>.
\<close>

record backend =
  select_documents :: "jsstring \<Rightarrow> document list option reply settled"
  select_integrations :: "jsstring \<Rightarrow> integration list option reply settled"
  insert_document :: "jsstring \<Rightarrow> jsstring \<Rightarrow> jsstring \<Rightarrow> jsstring \<Rightarrow> document reply settled"
  update_document :: "jsstring \<Rightarrow> jsstring option \<Rightarrow> jsstring option \<Rightarrow> unit reply settled"
  delete_document :: "jsstring \<Rightarrow> unit reply settled"
  auth_getUser :: "auth_user reply settled"
  owner_privileges :: "jsstring \<Rightarrow> unit option reply settled"
  check_subscription :: "subscription_status option reply settled"
  ai_summarize :: "jsstring option \<Rightarrow> jsstring option \<Rightarrow> summary_response option reply settled"
  null_summary_message :: jsstring
  undefined_substring_message :: jsstring

section \<open>The document manager's state\<close>

text \<open>
  The nine \<open>useState\<close> cells of the component, followed by what an observer of the
  component sees: the notifications shown, the requests issued and the errors written
  to the console, each in order.
\<close>

record dm_state =
  documents :: "document list"
  integrations :: "integration list"
  isLoading :: bool
  editingDoc :: "document option"
  newDocTitle :: jsstring
  newDocContent :: jsstring
  isCreateDialogOpen :: bool
  isSummarizing :: "jsstring option"
  viewingContent :: "viewed_content option"
  toasts :: "toast_args list"
  requests :: "request list"
  console_errors :: "err list"

text \<open>
  A handler is a state transformer that ends normally (\<open>Inr\<close>) or with an exception
  that nothing caught (\<open>Inl\<close>). \<open>try_catch\<close> and \<open>try_finally\<close> are the \<open>catch\<close> and
  \<open>finally\<close> clauses of a \<open>try\<close> statement; an \<open>await\<close> records the request and throws when the promise rejects.
\<close>

type_synonym 'a handler = "dm_state \<Rightarrow> (err + 'a) \<times> dm_state"

definition ret :: "'a \<Rightarrow> 'a handler" where
  "ret x = (\<lambda>s. (Inr x, s))"

definition throw :: "err \<Rightarrow> 'a handler" where
  "throw e = (\<lambda>s. (Inl e, s))"

definition bind :: "'a handler \<Rightarrow> ('a \<Rightarrow> 'b handler) \<Rightarrow> 'b handler" where
  "bind m f = (\<lambda>s. case m s of (Inl e, s') \<Rightarrow> (Inl e, s') | (Inr x, s') \<Rightarrow> f x s')"

definition modify :: "(dm_state \<Rightarrow> dm_state) \<Rightarrow> unit handler" where
  "modify f = (\<lambda>s. (Inr (), f s))"

definition try_catch :: "unit handler \<Rightarrow> (err \<Rightarrow> unit handler) \<Rightarrow> unit handler" where
  "try_catch m h = (\<lambda>s. case m s of (Inl e, s') \<Rightarrow> h e s' | (Inr x, s') \<Rightarrow> (Inr x, s'))"

definition try_finally :: "unit handler \<Rightarrow> unit handler \<Rightarrow> unit handler" where
  "try_finally m f = (\<lambda>s. case m s of (r, s') \<Rightarrow>
     (case f s' of (Inl e, s'') \<Rightarrow> (Inl e, s'') | (Inr x, s'') \<Rightarrow> (r, s'')))"

definition await :: "request \<Rightarrow> 'a settled \<Rightarrow> 'a handler" where
  "await q r = (\<lambda>s.
     (case r of Rejected e \<Rightarrow> Inl e | Fulfilled x \<Rightarrow> Inr x, s\<lparr>requests := requests s @ [q]\<rparr>))"

definition toast :: "toast_args \<Rightarrow> unit handler" where
  "toast t = modify (\<lambda>s. s\<lparr>toasts := toasts s @ [t]\<rparr>)"

definition error_toast :: "string \<Rightarrow> err \<Rightarrow> toast_args" where
  "error_toast t e =
     \<lparr>toast_title = lit t, description = message e, toast_variant = Some Destructive\<rparr>"

section \<open>Loading\<close>

definition loadDocuments :: "DocumentManagerProps \<Rightarrow> backend \<Rightarrow> unit handler" where
  "loadDocuments p b =
     (if teamId p = [] then ret ()
      else try_finally
        (try_catch
          (bind (await (Select_documents (teamId p)) (select_documents b (teamId p))) (\<lambda>r.
             case error_of r of
               Some e \<Rightarrow> throw e
             | None \<Rightarrow>
                 modify (\<lambda>s. s\<lparr>documents := (case data_of r of None \<Rightarrow> [] | Some ds \<Rightarrow> ds)\<rparr>)))
          (\<lambda>e. toast (error_toast ''Error loading documents'' e)))
        (modify (\<lambda>s. s\<lparr>isLoading := False\<rparr>)))"

definition loadIntegrations :: "DocumentManagerProps \<Rightarrow> backend \<Rightarrow> unit handler" where
  "loadIntegrations p b =
     (if teamId p = [] then ret ()
      else try_catch
        (bind (await (Select_integrations (teamId p)) (select_integrations b (teamId p))) (\<lambda>r.
           case error_of r of
             Some e \<Rightarrow> throw e
           | None \<Rightarrow>
               modify (\<lambda>s. s\<lparr>integrations := (case data_of r of None \<Rightarrow> [] | Some rows \<Rightarrow> rows)\<rparr>)))
        (\<lambda>e. modify (\<lambda>s. s\<lparr>console_errors := console_errors s @ [e]\<rparr>)))"

section \<open>Create, update, delete\<close>

text \<open>
  Each handler is a closure over the state of the render that created it: the list it
  passes to \<open>setDocuments\<close> is computed from that render's \<open>documents\<close>. The handlers
  below run from that state to completion.
\<close>

definition createDocument :: "DocumentManagerProps \<Rightarrow> backend \<Rightarrow> unit handler" where
  "createDocument p b = (\<lambda>st.
     (if trim (newDocTitle st) = [] then ret ()
      else try_catch
        (bind (await (Insert_document (newDocTitle st) (newDocContent st) (teamId p) (user_id p))
                 (insert_document b (newDocTitle st) (newDocContent st) (teamId p) (user_id p))) (\<lambda>r.
           case r of
             Failure e \<Rightarrow> throw e
           | Success d \<Rightarrow>
               bind (modify (\<lambda>s. s\<lparr>documents := d # documents st, newDocTitle := [],
                                    newDocContent := [], isCreateDialogOpen := False\<rparr>)) (\<lambda>_.
               toast \<lparr>toast_title = lit ''Document created'',
                      description = lit ''Your document has been created successfully.'',
                      toast_variant = None\<rparr>)))
        (\<lambda>e. toast (error_toast ''Error creating document'' e))) st)"

definition updateDocument :: "backend \<Rightarrow> document \<Rightarrow> unit handler" where
  "updateDocument b doc = (\<lambda>st.
     try_catch
       (bind (await (Update_document (doc_id doc) (title doc) (content doc))
                (update_document b (doc_id doc) (title doc) (content doc))) (\<lambda>r.
          case error_of r of
            Some e \<Rightarrow> throw e
          | None \<Rightarrow>
              bind (modify (\<lambda>s. s\<lparr>documents := map (\<lambda>d. if doc_id d = doc_id doc then doc else d)
                                                    (documents st),
                                   editingDoc := None\<rparr>)) (\<lambda>_.
              toast \<lparr>toast_title = lit ''Document updated'',
                     description = lit ''Your document has been saved.'',
                     toast_variant = None\<rparr>)))
       (\<lambda>e. toast (error_toast ''Error updating document'' e)) st)"

definition deleteDocument :: "backend \<Rightarrow> jsstring \<Rightarrow> unit handler" where
  "deleteDocument b docId = (\<lambda>st.
     try_catch
       (bind (await (Delete_document docId) (delete_document b docId)) (\<lambda>r.
          case error_of r of
            Some e \<Rightarrow> throw e
          | None \<Rightarrow>
              bind (modify (\<lambda>s. s\<lparr>documents := filter (\<lambda>d. doc_id d \<noteq> docId) (documents st)\<rparr>)) (\<lambda>_.
              toast \<lparr>toast_title = lit ''Document deleted'',
                     description = lit ''Your document has been deleted.'',
                     toast_variant = None\<rparr>)))
       (\<lambda>e. toast (error_toast ''Error deleting document'' e)) st)"

section \<open>Summarize\<close>

definition caller_email :: "auth_user reply \<Rightarrow> jsstring" where
  \<comment> \<open>\<open>user?.email || ''\<close>, where \<open>user\<close> is \<open>null\<close> in a failed reply\<close>
  "caller_email r = (case r of
       Failure e \<Rightarrow> []
     | Success u \<Rightarrow> (case email u of None \<Rightarrow> [] | Some a \<Rightarrow> a))"

definition upsell_toast :: toast_args where
  "upsell_toast =
     \<lparr>toast_title = lit ''AI Summary (Premium Feature)'',
      description = lit ''Upgrade to Premium to access AI-powered document summaries.'',
      toast_variant = Some Default\<rparr>"

definition summary_toast :: "jsstring \<Rightarrow> toast_args" where
  "summary_toast s =
     \<lparr>toast_title = lit ''AI Summary Generated'',
      description = substring 0 150 s @ lit ''...'',
      toast_variant = Some Default\<rparr>"

definition call_ai_summarize :: "backend \<Rightarrow> document \<Rightarrow> unit handler" where
  \<comment> \<open>the rest of the \<open>try\<close> block, from the call of \<open>ai-summarize\<close> on\<close>
  "call_ai_summarize b doc =
     bind (await (Invoke_ai_summarize (content doc) (title doc))
             (ai_summarize b (content doc) (title doc))) (\<lambda>r.
       case r of
         Failure e \<Rightarrow> throw e
       | Success summaryResponse \<Rightarrow>
           (case summaryResponse of
              None \<Rightarrow> throw \<lparr>message = null_summary_message b\<rparr>
            | Some sr \<Rightarrow>
                (case summary sr of
                   None \<Rightarrow> throw \<lparr>message = undefined_substring_message b\<rparr>
                 | Some s \<Rightarrow> toast (summary_toast s))))"

definition generateSummary_try :: "backend \<Rightarrow> document \<Rightarrow> unit handler" where
  "generateSummary_try b doc =
     bind (await Auth_getUser (auth_getUser b)) (\<lambda>userReply.
     bind (await (Select_owner_privileges (caller_email userReply))
             (owner_privileges b (caller_email userReply))) (\<lambda>ownerReply.
       let isOwner = (data_of ownerReply \<noteq> None) in
       if \<not> isOwner then
         bind (await Invoke_check_subscription (check_subscription b)) (\<lambda>subscriptionCheck.
           if \<not> (case data_of subscriptionCheck of None \<Rightarrow> False | Some c \<Rightarrow> subscribed c)
           then toast upsell_toast
           else call_ai_summarize b doc)
       else call_ai_summarize b doc))"

definition generateSummary_start :: "document \<Rightarrow> unit handler" where
  \<comment> \<open>the synchronous part of the click handler, before the first \<open>await\<close>\<close>
  "generateSummary_start doc = modify (\<lambda>s. s\<lparr>isSummarizing := Some (doc_id doc)\<rparr>)"

definition generateSummary_settle :: "backend \<Rightarrow> document \<Rightarrow> unit handler" where
  "generateSummary_settle b doc =
     try_finally
       (try_catch (generateSummary_try b doc)
          (\<lambda>e. toast (error_toast ''Error generating summary'' e)))
       (modify (\<lambda>s. s\<lparr>isSummarizing := None\<rparr>))"

definition generateSummary :: "backend \<Rightarrow> document \<Rightarrow> unit handler" where
  "generateSummary b doc = bind (generateSummary_start doc) (\<lambda>_. generateSummary_settle b doc)"

section \<open>What the view renders\<close>

text \<open>
  While \<open>isLoading\<close> holds the component renders a spinner and nothing else. Otherwise
  each document of the list has a card; a card that is not being edited carries the
  summarize button, which is disabled, and shows a spinner in place of its icon, while
  \<open>isSummarizing\<close> holds the document's identifier. A disabled button dispatches no
  click.
\<close>

record button =
  disabled :: bool
  spinner :: bool

definition card_editing :: "dm_state \<Rightarrow> document \<Rightarrow> bool" where
  \<comment> \<open>\<open>editingDoc?.id === doc.id\<close>\<close>
  "card_editing st doc = (case editingDoc st of None \<Rightarrow> False | Some e \<Rightarrow> doc_id e = doc_id doc)"

definition summarize_button :: "dm_state \<Rightarrow> document \<Rightarrow> button option" where
  "summarize_button st doc =
     (if isLoading st \<or> doc \<notin> set (documents st) \<or> card_editing st doc then None
      else Some \<lparr>disabled = (isSummarizing st = Some (doc_id doc) \<or> is_integration doc),
                 spinner = (isSummarizing st = Some (doc_id doc))\<rparr>)"

definition create_button_disabled :: "dm_state \<Rightarrow> bool" where
  "create_button_disabled st = (trim (newDocTitle st) = [])"

definition allowed_integration_types :: "jsstring list" where
  "allowed_integration_types = [lit ''google_drive'', lit ''notion'', lit ''github'']"

definition allowed_integration :: "integration \<Rightarrow> bool" where
  \<comment> \<open>\<open>[...].includes(integration.integration_type)\<close>\<close>
  "allowed_integration i =
     (case integration_type i of None \<Rightarrow> False | Some t \<Rightarrow> List.member allowed_integration_types t)"

datatype integrations_tab = No_integrations_card | Integrations_grid "integration list"

definition render_integrations_tab :: "integration list \<Rightarrow> integrations_tab" where
  "render_integrations_tab ints =
     (if length ints = 0 then No_integrations_card
      else Integrations_grid (filter allowed_integration ints))"

fun tab_items :: "integrations_tab \<Rightarrow> integration list" where
  "tab_items No_integrations_card = []"
| "tab_items (Integrations_grid items) = items"

definition rendered_integrations :: "dm_state \<Rightarrow> integration list" where
  \<comment> \<open>the integrations for which an \<open>IntegratedDocument\<close> element is rendered\<close>
  "rendered_integrations st =
     (if isLoading st then [] else tab_items (render_integrations_tab (integrations st)))"

section \<open>Clicks on the summarize button\<close>

text \<open>
  A summarization is in flight from the click that starts it until its handler has
  settled. \<open>in_flight\<close> lists the invocations that have started and not yet settled.
  A click reaches \<open>generateSummary\<close> only through a rendered, enabled button.
\<close>

record ui =
  ui_state :: dm_state
  in_flight :: "document list"

datatype ui_event = Click_summarize document | Settle_summarize backend document

fun ui_step :: "ui \<Rightarrow> ui_event \<Rightarrow> ui" where
  "ui_step u (Click_summarize doc) =
     (case summarize_button (ui_state u) doc of
        None \<Rightarrow> u
      | Some btn \<Rightarrow>
          if disabled btn then u
          else \<lparr>ui_state = snd (generateSummary_start doc (ui_state u)),
                in_flight = in_flight u @ [doc]\<rparr>)"
| "ui_step u (Settle_summarize b doc) =
     (if doc \<in> set (in_flight u)
      then \<lparr>ui_state = snd (generateSummary_settle b doc (ui_state u)),
            in_flight = remove1 doc (in_flight u)\<rparr>
      else u)"

definition ui_run :: "ui \<Rightarrow> ui_event list \<Rightarrow> ui" where
  "ui_run = foldl ui_step"

section \<open>The session observer\<close>

text \<open>
  \<open>AppContent\<close> keeps three state cells. Its effect, run once on mount, registers a
  listener for authentication-state changes, then requests the current session, and
  returns the clean-up that unsubscribes the listener. The listener and the
  continuation of the session promise have the same body. \<open>actions\<close> records, in
  order, what the component has called. The identity service delivers changes only to
  a registered listener; the promise settles at most once; nothing in the component
  cancels it. The rendering library applies a state update to a mounted component
  only: a setter called after the unmount is a no-op, recorded in \<open>actions\<close> and
  not applied to the cells.
\<close>

record auth_session =
  session_user :: auth_user

datatype app_action =
    Listener_registered
  | GetSession_called
  | SetSession "auth_session option"
  | SetUser "auth_user option"
  | SetIsLoading bool
  | Unsubscribe_called

record app_state =
  user :: "auth_user option"
  session :: "auth_session option"
  app_isLoading :: bool
  mounted :: bool
  listening :: bool
  getSession_pending :: bool
  actions :: "app_action list"

definition initial_app :: app_state where
  "initial_app =
     \<lparr>user = None, session = None, app_isLoading = True, mounted = False, listening = False,
      getSession_pending = False, actions = []\<rparr>"

definition setter_calls :: "auth_session option \<Rightarrow> app_action list" where
  \<comment> \<open>\<open>setSession(session); setUser(session?.user ?? null); setIsLoading(false)\<close>\<close>
  "setter_calls s = [SetSession s, SetUser (map_option session_user s), SetIsLoading False]"

definition on_session :: "auth_session option \<Rightarrow> app_state \<Rightarrow> app_state" where
  "on_session s st =
     (let called = st\<lparr>actions := actions st @ setter_calls s\<rparr>
      in if mounted st
         then called\<lparr>session := s, user := map_option session_user s, app_isLoading := False\<rparr>
         else called)"

definition mount :: "app_state \<Rightarrow> app_state" where
  "mount st =
     st\<lparr>mounted := True, listening := True, getSession_pending := True,
        actions := actions st @ [Listener_registered, GetSession_called]\<rparr>"

datatype app_event =
    Auth_state_change jsstring "auth_session option"
  | GetSession_fulfilled "auth_session option"
  | GetSession_rejected
  | Unmount

fun app_step :: "app_state \<Rightarrow> app_event \<Rightarrow> app_state" where
  "app_step st (Auth_state_change event s) = (if listening st then on_session s st else st)"
| "app_step st (GetSession_fulfilled s) =
     (if getSession_pending st then (on_session s st)\<lparr>getSession_pending := False\<rparr> else st)"
| "app_step st GetSession_rejected =
     (if getSession_pending st then st\<lparr>getSession_pending := False\<rparr> else st)"
| "app_step st Unmount =
     (if mounted st
      then st\<lparr>mounted := False, listening := False,
              actions := actions st @ [Unsubscribe_called]\<rparr>
      else st)"

definition app_run :: "app_event list \<Rightarrow> app_state" where
  "app_run evs = foldl app_step (mount initial_app) evs"

fun is_setter :: "app_action \<Rightarrow> bool" where
  "is_setter (SetSession s) = True"
| "is_setter (SetUser u) = True"
| "is_setter (SetIsLoading l) = True"
| "is_setter Listener_registered = False"
| "is_setter GetSession_called = False"
| "is_setter Unsubscribe_called = False"


definition updates_after_unmount :: "app_action list \<Rightarrow> app_action list" where
  "updates_after_unmount tr = filter is_setter (dropWhile (\<lambda>a. a \<noteq> Unsubscribe_called) tr)"

fun settles :: "app_event \<Rightarrow> bool" where
  "settles (GetSession_fulfilled s) = True"
| "settles GetSession_rejected = True"
| "settles (Auth_state_change event s) = False"
| "settles Unmount = False"

section \<open>Sample values\<close>

text \<open>
  The component's initial state, a backend whose every call succeeds and which knows
  no owner and no subscription, and a few documents and integrations.
\<close>

definition initial_state :: dm_state where
  "initial_state =
     \<lparr>documents = [], integrations = [], isLoading = True, editingDoc = None,
      newDocTitle = [], newDocContent = [], isCreateDialogOpen = False,
      isSummarizing = None, viewingContent = None, toasts = [], requests = [],
      console_errors = []\<rparr>"

definition sample_doc :: "string \<Rightarrow> string \<Rightarrow> document" where
  "sample_doc i t =
     \<lparr>doc_id = lit i, title = Some (lit t), content = None, team_id = lit ''team'',
      owner_id = lit ''me'', updated_at = None, is_integration = False\<rparr>"

definition sample_integration :: "string \<Rightarrow> jsstring option \<Rightarrow> integration" where
  "sample_integration i t =
     \<lparr>integration_id = lit i, integration_team = lit ''team'', integration_type = t\<rparr>"

definition sample_props :: DocumentManagerProps where
  "sample_props = \<lparr>user_id = lit ''me'', teamId = lit ''team''\<rparr>"

definition sample_user :: auth_user where
  "sample_user = \<lparr>auth_id = lit ''me'', email = Some (lit ''me@example.org'')\<rparr>"

definition boom :: err where
  "boom = \<lparr>message = lit ''boom''\<rparr>"

definition sample_backend :: backend where
  "sample_backend =
     \<lparr>select_documents = (\<lambda>team. Fulfilled (Success (Some []))),
      select_integrations = (\<lambda>team. Fulfilled (Success (Some []))),
      insert_document = (\<lambda>t c team owner. Fulfilled (Success (sample_doc ''new'' ''new''))),
      update_document = (\<lambda>i t c. Fulfilled (Success ())),
      delete_document = (\<lambda>i. Fulfilled (Success ())),
      auth_getUser = Fulfilled (Success sample_user),
      owner_privileges = (\<lambda>e. Fulfilled (Success None)),
      check_subscription = Fulfilled (Success (Some \<lparr>subscribed = False\<rparr>)),
      ai_summarize = (\<lambda>c t. Fulfilled (Success (Some \<lparr>summary = Some (lit ''short'')\<rparr>))),
      null_summary_message = lit ''TypeError: summary of null'',
      undefined_substring_message = lit ''TypeError: substring of undefined''\<rparr>"

definition loaded_state :: dm_state where
  \<comment> \<open>after the documents have loaded: two documents, no other activity\<close>
  "loaded_state =
     initial_state\<lparr>documents := [sample_doc ''a'' ''first'', sample_doc ''b'' ''second''],
                   isLoading := False\<rparr>"

definition failing_backend :: backend where
  \<comment> \<open>every table call fails; the caller is an owner and \<open>ai-summarize\<close> fails\<close>
  "failing_backend =
     sample_backend\<lparr>
       select_documents := (\<lambda>team. Fulfilled (Failure boom)),
       select_integrations := (\<lambda>team. Fulfilled (Failure boom)),
       insert_document := (\<lambda>t c team owner. Rejected boom),
       update_document := (\<lambda>i t c. Fulfilled (Failure boom)),
       delete_document := (\<lambda>i. Fulfilled (Failure boom)),
       owner_privileges := (\<lambda>e. Fulfilled (Success (Some ()))),
       ai_summarize := (\<lambda>c t. Fulfilled (Failure boom))\<rparr>"

definition typing_state :: dm_state where
  \<comment> \<open>the creation dialog is open and a title has been typed\<close>
  "typing_state = loaded_state\<lparr>newDocTitle := lit ''x'', isCreateDialogOpen := True\<rparr>"

definition blank_state :: dm_state where
  \<comment> \<open>the creation dialog is open; the title is a space, a tab and a no-break space\<close>
  "blank_state =
     loaded_state\<lparr>newDocTitle := [0x20, 0x09, 0xA0], newDocContent := lit ''text'',
                  isCreateDialogOpen := True\<rparr>"


section \<open>Notions used in the statements\<close>

text \<open>
  An awaited call fails when its promise rejects or its reply carries an error.
  The gate of the summarize handler is open when the calls before \<open>ai-summarize\<close>
  all fulfil and either the owner lookup returns a row or the subscription check
  reports a subscription. \<open>late_updates\<close> are the setter calls that the session
  promise causes when it is the first to settle among the given events.
\<close>

definition failed :: "'a reply settled \<Rightarrow> err option" where
  "failed r = (case r of
       Rejected e \<Rightarrow> Some e
     | Fulfilled (Failure e) \<Rightarrow> Some e
     | Fulfilled (Success x) \<Rightarrow> None)"

definition gate_open :: "backend \<Rightarrow> bool" where
  "gate_open b = (case auth_getUser b of
       Rejected e \<Rightarrow> False
     | Fulfilled userReply \<Rightarrow>
         (case owner_privileges b (caller_email userReply) of
            Rejected e \<Rightarrow> False
          | Fulfilled ownerReply \<Rightarrow>
              (if data_of ownerReply \<noteq> None then True
               else (case check_subscription b of
                       Rejected e \<Rightarrow> False
                     | Fulfilled c \<Rightarrow>
                         (case data_of c of None \<Rightarrow> False | Some x \<Rightarrow> subscribed x)))))"

definition late_updates :: "app_event list \<Rightarrow> app_action list" where
  "late_updates post = (case find settles post of
       Some (GetSession_fulfilled s) \<Rightarrow> setter_calls s
     | _ \<Rightarrow> [])"

section \<open>Basic facts\<close>

lemmas handler_defs = ret_def throw_def bind_def modify_def try_catch_def try_finally_def
  await_def toast_def

lemmas summarize_defs = generateSummary_def generateSummary_start_def generateSummary_settle_def
  generateSummary_try_def call_ai_summarize_def

lemmas sample_defs = sample_backend_def sample_props_def sample_user_def sample_doc_def
  sample_integration_def loaded_state_def initial_state_def boom_def caller_email_def
  failing_backend_def typing_state_def blank_state_def

lemma sample_ids: "lit ''a'' \<noteq> lit ''b''" "lit ''b'' \<noteq> lit ''a''"
  by (simp_all add: lit_def)

lemma dropWhile_all_iff: "(\<forall>c\<in>set (dropWhile P s). P c) \<longleftrightarrow> (\<forall>c\<in>set s. P c)"
  by (induction s) auto

lemma trim_empty_iff: "trim s = [] \<longleftrightarrow> (\<forall>c\<in>set s. js_whitespace c)"
  by (simp add: trim_def dropWhile_all_iff)

lemma filter_neq_length:
  "length (filter (\<lambda>d. f d \<noteq> k) xs) + length (filter (\<lambda>d. f d = k) xs) = length xs"
  by (induction xs) auto

lemma distinct_count_one:
  "distinct (map f xs) \<Longrightarrow> k \<in> f ` set xs \<Longrightarrow> length (filter (\<lambda>d. f d = k) xs) = 1"
  by (induction xs) (auto simp: filter_empty_conv image_iff)

section \<open>Summarize: the gate\<close>

lemma generateSummary_returns: "fst (generateSummary b doc st) = Inr ()"
  by (simp add: summarize_defs handler_defs Let_def
      split: settled.splits reply.splits option.splits)

lemma generateSummary_idle: "isSummarizing (snd (generateSummary b doc st)) = None"
  by (simp add: summarize_defs handler_defs Let_def
      split: settled.splits reply.splits option.splits)

lemma generateSummary_one_toast:
  "\<exists>t. toasts (snd (generateSummary b doc st)) = toasts st @ [t]"
  by (simp add: summarize_defs handler_defs Let_def
      split: settled.splits reply.splits option.splits)

lemma generateSummary_upsell:
  assumes "auth_getUser b = Fulfilled userReply"
    and "owner_privileges b (caller_email userReply) = Fulfilled ownerReply"
    and "data_of ownerReply = None"
    and "check_subscription b = Fulfilled subscriptionCheck"
    and "\<not> (case data_of subscriptionCheck of None \<Rightarrow> False | Some c \<Rightarrow> subscribed c)"
  shows "generateSummary b doc st =
    (Inr (), st\<lparr>isSummarizing := None,
       requests := requests st @ [Auth_getUser, Select_owner_privileges (caller_email userReply),
                                  Invoke_check_subscription],
       toasts := toasts st @ [upsell_toast]\<rparr>)"
  using assms by (simp add: summarize_defs handler_defs Let_def)

text \<open>
  C1. When the owner lookup for the caller's email returns no row and the
  subscription check does not report a subscription, the summarize handler issues
  exactly three requests (the user, the owner lookup, the subscription check), none of
  them \<open>ai-summarize\<close>, shows the upsell notification and nothing else, and ends
  normally with the in-flight indicator cleared.
\<close>

theorem generateSummary_gate_refuses:
  assumes "auth_getUser b = Fulfilled userReply"
    and "owner_privileges b (caller_email userReply) = Fulfilled ownerReply"
    and "data_of ownerReply = None"
    and "check_subscription b = Fulfilled subscriptionCheck"
    and "\<not> (case data_of subscriptionCheck of None \<Rightarrow> False | Some c \<Rightarrow> subscribed c)"
  shows "generateSummary b doc st =
           (Inr (), st\<lparr>isSummarizing := None,
              requests := requests st @
                [Auth_getUser, Select_owner_privileges (caller_email userReply),
                 Invoke_check_subscription],
              toasts := toasts st @ [upsell_toast]\<rparr>) \<and>
         (\<forall>c t. Invoke_ai_summarize c t \<notin>
            set (drop (length (requests st)) (requests (snd (generateSummary b doc st)))))"
proof -
  note eq = generateSummary_upsell [OF assms, of doc st]
  have "drop (length (requests st)) (requests (snd (generateSummary b doc st))) =
        [Auth_getUser, Select_owner_privileges (caller_email userReply), Invoke_check_subscription]"
    by (simp add: eq)
  then show ?thesis using eq by simp
qed

theorem generateSummary_gate_refuses_witness:
  "auth_getUser sample_backend = Fulfilled (Success sample_user) \<and>
   owner_privileges sample_backend (lit ''me@example.org'') = Fulfilled (Success None) \<and>
   check_subscription sample_backend = Fulfilled (Success (Some \<lparr>subscribed = False\<rparr>)) \<and>
   generateSummary sample_backend (sample_doc ''a'' ''first'') loaded_state =
     (Inr (), loaded_state\<lparr>
        requests := [Auth_getUser, Select_owner_privileges (lit ''me@example.org''),
                     Invoke_check_subscription],
        toasts := [upsell_toast]\<rparr>)"
proof -
  have h1: "auth_getUser sample_backend = Fulfilled (Success sample_user)"
    by (simp add: sample_backend_def)
  have h2: "owner_privileges sample_backend (caller_email (Success sample_user)) =
            Fulfilled (Success None)"
    by (simp add: sample_backend_def)
  have h3: "data_of (Success None :: unit option reply) = None" by simp
  have h4: "check_subscription sample_backend = Fulfilled (Success (Some \<lparr>subscribed = False\<rparr>))"
    by (simp add: sample_backend_def)
  have h5: "\<not> (case data_of (Success (Some \<lparr>subscribed = False\<rparr>)) of
                 None \<Rightarrow> False | Some c \<Rightarrow> subscribed c)"
    by simp
  show ?thesis
    using generateSummary_gate_refuses [OF h1 h2 h3 h4 h5, of "sample_doc ''a'' ''first''" loaded_state]
    by (simp add: sample_defs)
qed

section \<open>Summarize: completion and failures\<close>

lemma generateSummary_getUser_rejected:
  "auth_getUser b = Rejected e \<Longrightarrow>
   toasts (snd (generateSummary b doc st)) =
     toasts st @ [error_toast ''Error generating summary'' e]"
  by (simp add: summarize_defs handler_defs Let_def)

lemma generateSummary_owner_rejected:
  "auth_getUser b = Fulfilled userReply \<Longrightarrow>
   owner_privileges b (caller_email userReply) = Rejected e \<Longrightarrow>
   toasts (snd (generateSummary b doc st)) =
     toasts st @ [error_toast ''Error generating summary'' e]"
  by (simp add: summarize_defs handler_defs Let_def)

lemma generateSummary_check_rejected:
  "auth_getUser b = Fulfilled userReply \<Longrightarrow>
   owner_privileges b (caller_email userReply) = Fulfilled ownerReply \<Longrightarrow>
   data_of ownerReply = None \<Longrightarrow>
   check_subscription b = Rejected e \<Longrightarrow>
   toasts (snd (generateSummary b doc st)) =
     toasts st @ [error_toast ''Error generating summary'' e]"
  by (simp add: summarize_defs handler_defs Let_def)

lemma generateSummary_ai_failed:
  "gate_open b \<Longrightarrow> failed (ai_summarize b (content doc) (title doc)) = Some e \<Longrightarrow>
   toasts (snd (generateSummary b doc st)) =
     toasts st @ [error_toast ''Error generating summary'' e]"
  by (auto simp add: gate_open_def failed_def summarize_defs handler_defs Let_def
      split: settled.splits reply.splits option.splits if_splits)

lemma generateSummary_check_failure_upsell:
  "auth_getUser b = Fulfilled userReply \<Longrightarrow>
   owner_privileges b (caller_email userReply) = Fulfilled ownerReply \<Longrightarrow>
   data_of ownerReply = None \<Longrightarrow>
   check_subscription b = Fulfilled (Failure e) \<Longrightarrow>
   toasts (snd (generateSummary b doc st)) = toasts st @ [upsell_toast]"
  by (simp add: summarize_defs handler_defs Let_def)

lemma ui_entered_by_click:
  "isSummarizing (ui_state (ui_step u ev)) = Some i \<Longrightarrow>
   isSummarizing (ui_state u) = Some i \<or> (\<exists>doc. ev = Click_summarize doc \<and> doc_id doc = i)"
  by (cases ev) (auto simp: generateSummary_start_def generateSummary_settle_def handler_defs
      split: option.splits if_splits prod.splits sum.splits)

text \<open>
  C8, as stated, fails where a gate call reports its failure in the reply: the
  subscription check of a caller who is no owner fails with an error, and the only
  notification is the upsell one, which does not carry the error's message.
\<close>

theorem summarize_check_failure_counterexample:
  "toasts (snd (generateSummary
      (sample_backend\<lparr>check_subscription := Fulfilled (Failure boom)\<rparr>)
      (sample_doc ''a'' ''first'') loaded_state)) = [upsell_toast] \<and>
   description upsell_toast \<noteq> message boom"
  by (simp add: summarize_defs handler_defs Let_def sample_defs upsell_toast_def lit_def)

text \<open>
  C8, amended. Starting a summarization sets the indicator to the document's
  identifier, and only a click on a summarize button does so. Every run of the handler
  ends normally with the indicator cleared and exactly one notification shown. The
  notification is the error one, carrying the error's message, when a promise of any of
  the four calls rejects or when the reply of \<open>ai-summarize\<close> carries an error. An
  error carried by the reply of the subscription check is not read: the caller is
  taken as not subscribed and sees the upsell notification.
\<close>

theorem summarize_state_machine:
  "isSummarizing (snd (generateSummary_start doc st)) = Some (doc_id doc) \<and>
   (isSummarizing (ui_state (ui_step u ev)) = Some i \<longrightarrow>
      isSummarizing (ui_state u) = Some i \<or> (\<exists>d. ev = Click_summarize d \<and> doc_id d = i)) \<and>
   fst (generateSummary b doc st) = Inr () \<and>
   isSummarizing (snd (generateSummary b doc st)) = None \<and>
   (\<exists>t. toasts (snd (generateSummary b doc st)) = toasts st @ [t]) \<and>
   (auth_getUser b = Rejected e \<longrightarrow>
      toasts (snd (generateSummary b doc st)) =
        toasts st @ [error_toast ''Error generating summary'' e]) \<and>
   (auth_getUser b = Fulfilled userReply \<and>
    owner_privileges b (caller_email userReply) = Rejected e \<longrightarrow>
      toasts (snd (generateSummary b doc st)) =
        toasts st @ [error_toast ''Error generating summary'' e]) \<and>
   (auth_getUser b = Fulfilled userReply \<and>
    owner_privileges b (caller_email userReply) = Fulfilled ownerReply \<and>
    data_of ownerReply = None \<and> check_subscription b = Rejected e \<longrightarrow>
      toasts (snd (generateSummary b doc st)) =
        toasts st @ [error_toast ''Error generating summary'' e]) \<and>
   (gate_open b \<and> failed (ai_summarize b (content doc) (title doc)) = Some e \<longrightarrow>
      toasts (snd (generateSummary b doc st)) =
        toasts st @ [error_toast ''Error generating summary'' e]) \<and>
   (auth_getUser b = Fulfilled userReply \<and>
    owner_privileges b (caller_email userReply) = Fulfilled ownerReply \<and>
    data_of ownerReply = None \<and> check_subscription b = Fulfilled (Failure e) \<longrightarrow>
      toasts (snd (generateSummary b doc st)) = toasts st @ [upsell_toast])"
proof -
  have start: "isSummarizing (snd (generateSummary_start doc st)) = Some (doc_id doc)"
    by (simp add: generateSummary_start_def modify_def)
  have entry: "isSummarizing (ui_state (ui_step u ev)) = Some i \<longrightarrow>
      isSummarizing (ui_state u) = Some i \<or> (\<exists>d. ev = Click_summarize d \<and> doc_id d = i)"
    using ui_entered_by_click [of u ev i] by blast
  show ?thesis
    using start entry generateSummary_returns [of b doc st] generateSummary_idle [of b doc st]
      generateSummary_one_toast [of b doc st]
      generateSummary_getUser_rejected [of b e doc st]
      generateSummary_owner_rejected [of b userReply e doc st]
      generateSummary_check_rejected [of b userReply ownerReply e doc st]
      generateSummary_ai_failed [of b doc e st]
      generateSummary_check_failure_upsell [of b userReply ownerReply e doc st]
    by blast
qed

theorem summarize_state_machine_witness:
  "toasts (snd (generateSummary (sample_backend\<lparr>auth_getUser := Rejected boom\<rparr>)
      (sample_doc ''a'' ''first'') loaded_state)) =
     [error_toast ''Error generating summary'' boom] \<and>
   toasts (snd (generateSummary (sample_backend\<lparr>owner_privileges := \<lambda>a. Rejected boom\<rparr>)
      (sample_doc ''a'' ''first'') loaded_state)) =
     [error_toast ''Error generating summary'' boom] \<and>
   toasts (snd (generateSummary (sample_backend\<lparr>check_subscription := Rejected boom\<rparr>)
      (sample_doc ''a'' ''first'') loaded_state)) =
     [error_toast ''Error generating summary'' boom] \<and>
   toasts (snd (generateSummary
      (sample_backend\<lparr>owner_privileges := \<lambda>a. Fulfilled (Success (Some ())),
                       ai_summarize := \<lambda>c t. Fulfilled (Failure boom)\<rparr>)
      (sample_doc ''a'' ''first'') loaded_state)) =
     [error_toast ''Error generating summary'' boom] \<and>
   toasts (snd (generateSummary (sample_backend\<lparr>check_subscription := Fulfilled (Failure boom)\<rparr>)
      (sample_doc ''a'' ''first'') loaded_state)) = [upsell_toast] \<and>
   isSummarizing (ui_state (ui_step \<lparr>ui_state = loaded_state, in_flight = []\<rparr>
      (Click_summarize (sample_doc ''a'' ''first'')))) = Some (lit ''a'') \<and>
   isSummarizing (snd (generateSummary sample_backend (sample_doc ''a'' ''first'')
      loaded_state)) = None"
proof -
  let ?d = "sample_doc ''a'' ''first''"
  have 1: "toasts (snd (generateSummary (sample_backend\<lparr>auth_getUser := Rejected boom\<rparr>)
      ?d loaded_state)) = [error_toast ''Error generating summary'' boom]"
    using summarize_state_machine [where b = "sample_backend\<lparr>auth_getUser := Rejected boom\<rparr>"
        and e = boom and doc = ?d and st = loaded_state]
    by (simp add: loaded_state_def initial_state_def)
  have 2: "toasts (snd (generateSummary (sample_backend\<lparr>owner_privileges := \<lambda>a. Rejected boom\<rparr>)
      ?d loaded_state)) = [error_toast ''Error generating summary'' boom]"
    using summarize_state_machine [where b = "sample_backend\<lparr>owner_privileges := \<lambda>a. Rejected boom\<rparr>"
        and e = boom and doc = ?d and st = loaded_state and userReply = "Success sample_user"]
    by (simp add: loaded_state_def initial_state_def sample_backend_def)
  have 3: "toasts (snd (generateSummary (sample_backend\<lparr>check_subscription := Rejected boom\<rparr>)
      ?d loaded_state)) = [error_toast ''Error generating summary'' boom]"
    using summarize_state_machine [where b = "sample_backend\<lparr>check_subscription := Rejected boom\<rparr>"
        and e = boom and doc = ?d and st = loaded_state and userReply = "Success sample_user"
        and ownerReply = "Success None"]
    by (simp add: loaded_state_def initial_state_def sample_backend_def)
  have 4: "toasts (snd (generateSummary
      (sample_backend\<lparr>owner_privileges := \<lambda>a. Fulfilled (Success (Some ())),
                       ai_summarize := \<lambda>c t. Fulfilled (Failure boom)\<rparr>)
      ?d loaded_state)) = [error_toast ''Error generating summary'' boom]"
    using summarize_state_machine [where b = "sample_backend\<lparr>owner_privileges := \<lambda>a. Fulfilled (Success (Some ())),
                       ai_summarize := \<lambda>c t. Fulfilled (Failure boom)\<rparr>"
        and e = boom and doc = ?d and st = loaded_state]
    by (simp add: loaded_state_def initial_state_def sample_backend_def gate_open_def failed_def)
  have 5: "toasts (snd (generateSummary (sample_backend\<lparr>check_subscription := Fulfilled (Failure boom)\<rparr>)
      ?d loaded_state)) = [upsell_toast]"
    using summarize_state_machine [where b = "sample_backend\<lparr>check_subscription := Fulfilled (Failure boom)\<rparr>"
        and e = boom and doc = ?d and st = loaded_state and userReply = "Success sample_user"
        and ownerReply = "Success None"]
    by (simp add: loaded_state_def initial_state_def sample_backend_def)
  have 6: "isSummarizing (ui_state (ui_step \<lparr>ui_state = loaded_state, in_flight = []\<rparr>
      (Click_summarize ?d))) = Some (lit ''a'')"
    by (simp add: summarize_button_def card_editing_def generateSummary_start_def modify_def
        sample_defs)
  have 7: "isSummarizing (snd (generateSummary sample_backend ?d loaded_state)) = None"
    using summarize_state_machine [where b = sample_backend and doc = ?d and st = loaded_state]
    by simp
  from 1 2 3 4 5 6 7 show ?thesis by simp
qed

section \<open>Summarize: the owner lookup\<close>

lemma generateSummary_owner_error_ignored:
  assumes "auth_getUser b = Fulfilled userReply"
    and "owner_privileges b (caller_email userReply) = Fulfilled (Failure e)"
  shows "generateSummary b doc st =
         generateSummary (b\<lparr>owner_privileges := \<lambda>a. Fulfilled (Success None)\<rparr>) doc st"
    and "take 3 (drop (length (requests st)) (requests (snd (generateSummary b doc st)))) =
         [Auth_getUser, Select_owner_privileges (caller_email userReply),
          Invoke_check_subscription]"
  using assms by (simp_all add: summarize_defs handler_defs Let_def
      split: settled.splits reply.splits option.splits)

text \<open>
  C10. When the owner lookup answers with an error, the summarize handler behaves,
  in every respect (result, state, requests, notifications), as it does when the
  lookup answers without error and without a row: the error is not read, and the next
  request after the lookup is the subscription check.
\<close>

theorem owner_lookup_error_discarded:
  assumes "auth_getUser b = Fulfilled userReply"
    and "owner_privileges b (caller_email userReply) = Fulfilled (Failure e)"
  shows "generateSummary b doc st =
           generateSummary (b\<lparr>owner_privileges := \<lambda>a. Fulfilled (Success None)\<rparr>) doc st \<and>
         take 3 (drop (length (requests st)) (requests (snd (generateSummary b doc st)))) =
           [Auth_getUser, Select_owner_privileges (caller_email userReply),
            Invoke_check_subscription]"
  using generateSummary_owner_error_ignored [OF assms] by simp

theorem owner_lookup_error_discarded_witness:
  "owner_privileges (sample_backend\<lparr>owner_privileges := \<lambda>a. Fulfilled (Failure boom)\<rparr>)
     (lit ''me@example.org'') = Fulfilled (Failure boom) \<and>
   generateSummary (sample_backend\<lparr>owner_privileges := \<lambda>a. Fulfilled (Failure boom)\<rparr>)
     (sample_doc ''a'' ''first'') loaded_state =
   generateSummary sample_backend (sample_doc ''a'' ''first'') loaded_state \<and>
   requests (snd (generateSummary
     (sample_backend\<lparr>owner_privileges := \<lambda>a. Fulfilled (Failure boom)\<rparr>)
     (sample_doc ''a'' ''first'') loaded_state)) =
     [Auth_getUser, Select_owner_privileges (lit ''me@example.org''), Invoke_check_subscription] \<and>
   toasts (snd (generateSummary
     (sample_backend\<lparr>owner_privileges := \<lambda>a. Fulfilled (Failure boom)\<rparr>)
     (sample_doc ''a'' ''first'') loaded_state)) = [upsell_toast]"
proof -
  let ?b = "sample_backend\<lparr>owner_privileges := \<lambda>a. Fulfilled (Failure boom)\<rparr>"
  have h1: "auth_getUser ?b = Fulfilled (Success sample_user)"
    by (simp add: sample_backend_def)
  have h2: "owner_privileges ?b (caller_email (Success sample_user)) = Fulfilled (Failure boom)"
    by simp
  have same: "?b\<lparr>owner_privileges := \<lambda>a. Fulfilled (Success None)\<rparr> = sample_backend"
    by (simp add: sample_backend_def)
  have run: "generateSummary sample_backend (sample_doc ''a'' ''first'') loaded_state =
     (Inr (), loaded_state\<lparr>
        requests := [Auth_getUser, Select_owner_privileges (lit ''me@example.org''),
                     Invoke_check_subscription],
        toasts := [upsell_toast]\<rparr>)"
    by (simp add: summarize_defs handler_defs Let_def sample_defs)
  show ?thesis
    using owner_lookup_error_discarded [OF h1 h2, of "sample_doc ''a'' ''first''" loaded_state]
    by (simp add: same run)
qed

section \<open>Failures of backend calls\<close>

lemma loadDocuments_failed:
  "teamId p \<noteq> [] \<Longrightarrow> failed (select_documents b (teamId p)) = Some e \<Longrightarrow>
   loadDocuments p b st =
     (Inr (), st\<lparr>isLoading := False,
        requests := requests st @ [Select_documents (teamId p)],
        toasts := toasts st @ [error_toast ''Error loading documents'' e]\<rparr>)"
  by (auto simp: loadDocuments_def failed_def handler_defs split: settled.splits reply.splits)

lemma loadIntegrations_failed:
  "teamId p \<noteq> [] \<Longrightarrow> failed (select_integrations b (teamId p)) = Some e \<Longrightarrow>
   loadIntegrations p b st =
     (Inr (), st\<lparr>requests := requests st @ [Select_integrations (teamId p)],
        console_errors := console_errors st @ [e]\<rparr>)"
  by (auto simp: loadIntegrations_def failed_def handler_defs split: settled.splits reply.splits)

lemma createDocument_failed:
  "trim (newDocTitle st) \<noteq> [] \<Longrightarrow>
   failed (insert_document b (newDocTitle st) (newDocContent st) (teamId p) (user_id p)) = Some e \<Longrightarrow>
   createDocument p b st =
     (Inr (), st\<lparr>requests := requests st @
          [Insert_document (newDocTitle st) (newDocContent st) (teamId p) (user_id p)],
        toasts := toasts st @ [error_toast ''Error creating document'' e]\<rparr>)"
  by (auto simp: createDocument_def failed_def handler_defs split: settled.splits reply.splits)

lemma updateDocument_failed:
  "failed (update_document b (doc_id doc) (title doc) (content doc)) = Some e \<Longrightarrow>
   updateDocument b doc st =
     (Inr (), st\<lparr>requests := requests st @
          [Update_document (doc_id doc) (title doc) (content doc)],
        toasts := toasts st @ [error_toast ''Error updating document'' e]\<rparr>)"
  by (auto simp: updateDocument_def failed_def handler_defs split: settled.splits reply.splits)

lemma deleteDocument_failed:
  "failed (delete_document b docId) = Some e \<Longrightarrow>
   deleteDocument b docId st =
     (Inr (), st\<lparr>requests := requests st @ [Delete_document docId],
        toasts := toasts st @ [error_toast ''Error deleting document'' e]\<rparr>)"
  by (auto simp: deleteDocument_def failed_def handler_defs split: settled.splits reply.splits)

lemma handlers_return:
  "fst (loadDocuments p b st) = Inr ()" "fst (loadIntegrations p b st) = Inr ()"
  "fst (createDocument p b st) = Inr ()" "fst (updateDocument b doc st) = Inr ()"
  "fst (deleteDocument b docId st) = Inr ()"
  by (simp_all add: loadDocuments_def loadIntegrations_def createDocument_def updateDocument_def
      deleteDocument_def handler_defs split: settled.splits reply.splits option.splits)

text \<open>
  C4, as stated, fails for the integrations load: when the select on the
  integrations table fails, the error is written to the console and no notification is
  shown.
\<close>

theorem loadIntegrations_failure_counterexample:
  "failed (select_integrations failing_backend (teamId sample_props)) = Some boom \<and>
   toasts (snd (loadIntegrations sample_props failing_backend initial_state)) = [] \<and>
   console_errors (snd (loadIntegrations sample_props failing_backend initial_state)) = [boom]"
  by (simp add: loadIntegrations_def handler_defs failed_def sample_defs lit_def)

text \<open>
  C4, amended. No handler of the document manager lets an exception escape. A failed
  documents load, insert, update or delete, and a failed \<open>ai-summarize\<close> call behind
  an open gate, each add exactly the error notification of that operation, carrying
  the error's message, and change nothing else but the request log (and, for the
  documents load, the loading flag). A failed integrations load adds no notification:
  it writes the error to the console and leaves the integrations as they were.
\<close>

theorem backend_failures_handled:
  "fst (loadDocuments p b st) = Inr () \<and> fst (loadIntegrations p b st) = Inr () \<and>
   fst (createDocument p b st) = Inr () \<and> fst (updateDocument b doc st) = Inr () \<and>
   fst (deleteDocument b docId st) = Inr () \<and> fst (generateSummary b doc st) = Inr () \<and>
   (teamId p \<noteq> [] \<and> failed (select_documents b (teamId p)) = Some e \<longrightarrow>
      loadDocuments p b st =
        (Inr (), st\<lparr>isLoading := False,
           requests := requests st @ [Select_documents (teamId p)],
           toasts := toasts st @ [error_toast ''Error loading documents'' e]\<rparr>)) \<and>
   (teamId p \<noteq> [] \<and> failed (select_integrations b (teamId p)) = Some e \<longrightarrow>
      loadIntegrations p b st =
        (Inr (), st\<lparr>requests := requests st @ [Select_integrations (teamId p)],
           console_errors := console_errors st @ [e]\<rparr>)) \<and>
   (trim (newDocTitle st) \<noteq> [] \<and>
    failed (insert_document b (newDocTitle st) (newDocContent st) (teamId p) (user_id p)) = Some e \<longrightarrow>
      createDocument p b st =
        (Inr (), st\<lparr>requests := requests st @
             [Insert_document (newDocTitle st) (newDocContent st) (teamId p) (user_id p)],
           toasts := toasts st @ [error_toast ''Error creating document'' e]\<rparr>)) \<and>
   (failed (update_document b (doc_id doc) (title doc) (content doc)) = Some e \<longrightarrow>
      updateDocument b doc st =
        (Inr (), st\<lparr>requests := requests st @
             [Update_document (doc_id doc) (title doc) (content doc)],
           toasts := toasts st @ [error_toast ''Error updating document'' e]\<rparr>)) \<and>
   (failed (delete_document b docId) = Some e \<longrightarrow>
      deleteDocument b docId st =
        (Inr (), st\<lparr>requests := requests st @ [Delete_document docId],
           toasts := toasts st @ [error_toast ''Error deleting document'' e]\<rparr>)) \<and>
   (gate_open b \<and> failed (ai_summarize b (content doc) (title doc)) = Some e \<longrightarrow>
      toasts (snd (generateSummary b doc st)) =
        toasts st @ [error_toast ''Error generating summary'' e])"
  using handlers_return generateSummary_returns [of b doc st]
    loadDocuments_failed [of p b e st] loadIntegrations_failed [of p b e st]
    createDocument_failed [of st b p e] updateDocument_failed [of b doc e st]
    deleteDocument_failed [of b docId e st] generateSummary_ai_failed [of b doc e st]
  by blast

theorem backend_failures_handled_witness:
  "toasts (snd (loadDocuments sample_props failing_backend loaded_state)) =
     [error_toast ''Error loading documents'' boom] \<and>
   toasts (snd (loadIntegrations sample_props failing_backend loaded_state)) = [] \<and>
   console_errors (snd (loadIntegrations sample_props failing_backend loaded_state)) = [boom] \<and>
   toasts (snd (createDocument sample_props failing_backend typing_state)) =
     [error_toast ''Error creating document'' boom] \<and>
   isCreateDialogOpen (snd (createDocument sample_props failing_backend typing_state)) \<and>
   toasts (snd (updateDocument failing_backend (sample_doc ''a'' ''edited'') loaded_state)) =
     [error_toast ''Error updating document'' boom] \<and>
   toasts (snd (deleteDocument failing_backend (lit ''a'') loaded_state)) =
     [error_toast ''Error deleting document'' boom] \<and>
   documents (snd (deleteDocument failing_backend (lit ''a'') loaded_state)) =
     documents loaded_state \<and>
   toasts (snd (generateSummary failing_backend (sample_doc ''a'' ''first'') loaded_state)) =
     [error_toast ''Error generating summary'' boom]"
proof -
  have t: "teamId sample_props \<noteq> []" by (simp add: sample_props_def lit_def)
  have x: "trim (newDocTitle typing_state) \<noteq> []"
    by (simp add: typing_state_def loaded_state_def initial_state_def trim_def lit_def
        js_whitespace_def)
  have g: "gate_open failing_backend"
    by (simp add: gate_open_def failing_backend_def sample_backend_def)
  have f: "failed (select_documents failing_backend (teamId sample_props)) = Some boom"
    "failed (select_integrations failing_backend (teamId sample_props)) = Some boom"
    "failed (insert_document failing_backend (newDocTitle typing_state)
       (newDocContent typing_state) (teamId sample_props) (user_id sample_props)) = Some boom"
    "failed (update_document failing_backend (doc_id (sample_doc ''a'' ''edited''))
       (title (sample_doc ''a'' ''edited'')) (content (sample_doc ''a'' ''edited''))) = Some boom"
    "failed (delete_document failing_backend (lit ''a'')) = Some boom"
    "failed (ai_summarize failing_backend (content (sample_doc ''a'' ''first''))
       (title (sample_doc ''a'' ''first''))) = Some boom"
    by (simp_all add: failed_def failing_backend_def)
  have 1: "toasts (snd (loadDocuments sample_props failing_backend loaded_state)) =
     [error_toast ''Error loading documents'' boom] \<and>
     toasts (snd (loadIntegrations sample_props failing_backend loaded_state)) = [] \<and>
     console_errors (snd (loadIntegrations sample_props failing_backend loaded_state)) = [boom]"
    using backend_failures_handled [where p = sample_props and b = failing_backend
        and st = loaded_state and e = boom] t f(1,2)
    by (simp add: loaded_state_def initial_state_def)
  have 2: "toasts (snd (createDocument sample_props failing_backend typing_state)) =
     [error_toast ''Error creating document'' boom] \<and>
     isCreateDialogOpen (snd (createDocument sample_props failing_backend typing_state))"
    using backend_failures_handled [where p = sample_props and b = failing_backend
        and st = typing_state and e = boom] x f(3)
    by (simp add: typing_state_def loaded_state_def initial_state_def)
  have 3: "toasts (snd (updateDocument failing_backend (sample_doc ''a'' ''edited'') loaded_state)) =
     [error_toast ''Error updating document'' boom]"
    using backend_failures_handled [where b = failing_backend and st = loaded_state
        and doc = "sample_doc ''a'' ''edited''" and e = boom] f(4)
    by (simp add: loaded_state_def initial_state_def)
  have 4: "toasts (snd (deleteDocument failing_backend (lit ''a'') loaded_state)) =
     [error_toast ''Error deleting document'' boom] \<and>
     documents (snd (deleteDocument failing_backend (lit ''a'') loaded_state)) =
     documents loaded_state"
    using backend_failures_handled [where b = failing_backend and st = loaded_state
        and docId = "lit ''a''" and e = boom] f(5)
    by (simp add: loaded_state_def initial_state_def)
  have 5: "toasts (snd (generateSummary failing_backend (sample_doc ''a'' ''first'') loaded_state)) =
     [error_toast ''Error generating summary'' boom]"
    using backend_failures_handled [where b = failing_backend and st = loaded_state
        and doc = "sample_doc ''a'' ''first''" and e = boom] g f(6)
    by (simp add: loaded_state_def initial_state_def)
  from 1 2 3 4 5 show ?thesis by simp
qed

section \<open>Create with a blank title\<close>

text \<open>
  C7. When the title typed into the creation dialog is empty or consists of
  white space only, \<open>createDocument\<close> returns at once: it ends normally and leaves the
  whole state as it was, so no request is issued, no notification is shown, and the
  dialog, the list and the input fields are unchanged. The dialog's create button is
  disabled in that state.
\<close>

theorem createDocument_blank_title:
  assumes "\<forall>c\<in>set (newDocTitle st). js_whitespace c"
  shows "createDocument p b st = (Inr (), st) \<and> create_button_disabled st"
  using assms
  by (simp add: createDocument_def create_button_disabled_def trim_empty_iff ret_def)

theorem createDocument_blank_title_witness:
  "createDocument sample_props sample_backend blank_state = (Inr (), blank_state) \<and>
   isCreateDialogOpen blank_state \<and> requests blank_state = [] \<and>
   createDocument sample_props sample_backend loaded_state = (Inr (), loaded_state)"
proof -
  have b: "\<forall>c\<in>set (newDocTitle blank_state). js_whitespace c"
    by (simp add: blank_state_def loaded_state_def initial_state_def js_whitespace_def)
  have e: "\<forall>c\<in>set (newDocTitle loaded_state). js_whitespace c"
    by (simp add: loaded_state_def initial_state_def)
  show ?thesis
    using createDocument_blank_title [OF b, of sample_props sample_backend]
      createDocument_blank_title [OF e, of sample_props sample_backend]
    by (simp add: blank_state_def loaded_state_def initial_state_def)
qed

section \<open>Update\<close>

text \<open>
  C6. After a successful update the list has the same length, every entry whose
  identifier is the updated document's is the updated document, and every other entry
  is the entry that was at that position before.
\<close>

theorem updateDocument_frame:
  assumes "update_document b (doc_id doc) (title doc) (content doc) = Fulfilled (Success ())"
  shows "length (documents (snd (updateDocument b doc st))) = length (documents st) \<and>
         (\<forall>i<length (documents st).
            documents (snd (updateDocument b doc st)) ! i =
              (if doc_id (documents st ! i) = doc_id doc then doc else documents st ! i))"
  using assms by (simp add: updateDocument_def handler_defs)

theorem updateDocument_frame_witness:
  "update_document sample_backend (lit ''a'') (Some (lit ''edited'')) None =
     Fulfilled (Success ()) \<and>
   documents (snd (updateDocument sample_backend (sample_doc ''a'' ''edited'') loaded_state)) ! 0 =
     sample_doc ''a'' ''edited'' \<and>
   documents (snd (updateDocument sample_backend (sample_doc ''a'' ''edited'') loaded_state)) ! 1 =
     sample_doc ''b'' ''second'' \<and>
   length (documents (snd (updateDocument sample_backend (sample_doc ''a'' ''edited'')
     loaded_state))) = 2"
proof -
  let ?d = "sample_doc ''a'' ''edited''"
  have h: "update_document sample_backend (doc_id ?d) (title ?d) (content ?d) =
           Fulfilled (Success ())"
    by (simp add: sample_backend_def)
  have l: "documents loaded_state = [sample_doc ''a'' ''first'', sample_doc ''b'' ''second'']"
    by (simp add: loaded_state_def initial_state_def)
  have i: "doc_id (sample_doc ''a'' ''first'') = doc_id ?d"
    "doc_id (sample_doc ''b'' ''second'') \<noteq> doc_id ?d"
    by (simp_all add: sample_doc_def sample_ids)
  from updateDocument_frame [OF h, of loaded_state]
  have len: "length (documents (snd (updateDocument sample_backend ?d loaded_state))) = 2"
    and nth: "\<And>i. i < 2 \<Longrightarrow>
      documents (snd (updateDocument sample_backend ?d loaded_state)) ! i =
        (if doc_id (documents loaded_state ! i) = doc_id ?d then ?d
         else documents loaded_state ! i)"
    by (simp_all add: l)
  from nth [of 0] nth [of 1] len h i show ?thesis
    by (simp add: l sample_doc_def)
qed

section \<open>Delete\<close>







section \<open>The integrations tab\<close>

lemma allowed_integration_iff:
  "allowed_integration i \<longleftrightarrow>
     integration_type i = Some (lit ''google_drive'') \<or>
     integration_type i = Some (lit ''notion'') \<or>
     integration_type i = Some (lit ''github'')"
  by (auto simp: allowed_integration_def allowed_integration_types_def split: option.splits)

text \<open>
  C9. The integrations tab renders an item for exactly those entries of the
  integrations list, in the list's order, whose type is \<open>google_drive\<close>, \<open>notion\<close> or
  \<open>github\<close> (the external-drive, notes-service and code-hosting types); the
  component renders them once it has left its loading state.
\<close>

theorem rendered_integrations_allow_list:
  "tab_items (render_integrations_tab ints) =
     filter (\<lambda>i. integration_type i = Some (lit ''google_drive'') \<or>
                 integration_type i = Some (lit ''notion'') \<or>
                 integration_type i = Some (lit ''github'')) ints \<and>
   rendered_integrations st =
     (if isLoading st then []
      else filter (\<lambda>i. integration_type i = Some (lit ''google_drive'') \<or>
                       integration_type i = Some (lit ''notion'') \<or>
                       integration_type i = Some (lit ''github'')) (integrations st))"
proof -
  have "allowed_integration =
     (\<lambda>i. integration_type i = Some (lit ''google_drive'') \<or>
           integration_type i = Some (lit ''notion'') \<or>
           integration_type i = Some (lit ''github''))"
    by (simp add: fun_eq_iff allowed_integration_iff)
  then show ?thesis
    by (simp add: render_integrations_tab_def rendered_integrations_def)
qed

theorem rendered_integrations_allow_list_witness:
  "tab_items (render_integrations_tab
     [sample_integration ''1'' (Some (lit ''google_drive'')),
      sample_integration ''2'' (Some (lit ''slack'')),
      sample_integration ''3'' None,
      sample_integration ''4'' (Some (lit ''github'')),
      sample_integration ''5'' (Some (lit ''notion''))]) =
     [sample_integration ''1'' (Some (lit ''google_drive'')),
      sample_integration ''4'' (Some (lit ''github'')),
      sample_integration ''5'' (Some (lit ''notion''))]"
  using rendered_integrations_allow_list [of
     "[sample_integration ''1'' (Some (lit ''google_drive'')),
       sample_integration ''2'' (Some (lit ''slack'')),
       sample_integration ''3'' None,
       sample_integration ''4'' (Some (lit ''github'')),
       sample_integration ''5'' (Some (lit ''notion''))]" initial_state]
  by (simp add: sample_integration_def lit_def)

section \<open>Duplicate clicks on the summarize button\<close>

lemma spinner_disabled:
  "summarize_button st doc = Some btn \<Longrightarrow>
   spinner btn = (isSummarizing st = Some (doc_id doc)) \<and> (spinner btn \<longrightarrow> disabled btn)"
  by (auto simp: summarize_button_def split: if_splits)

lemma click_while_spinner:
  "isSummarizing (ui_state u) = Some (doc_id doc) \<Longrightarrow> ui_step u (Click_summarize doc) = u"
  by (simp add: summarize_button_def)

lemma click_enabled_fires:
  "summarize_button (ui_state u) doc = Some btn \<Longrightarrow> \<not> disabled btn \<Longrightarrow>
   in_flight (ui_step u (Click_summarize doc)) = in_flight u @ [doc] \<and>
   isSummarizing (ui_state (ui_step u (Click_summarize doc))) = Some (doc_id doc)"
  by (simp add: generateSummary_start_def handler_defs)

lemma settle_clears_slot:
  "d \<in> set (in_flight u) \<Longrightarrow>
   isSummarizing (ui_state (ui_step u (Settle_summarize b d))) = None"
  by (simp add: generateSummary_settle_def handler_defs split: prod.splits sum.splits)

text \<open>
  C3, as stated, fails: while a document's summarization is in flight and its
  spinner is shown, a second click on the same document starts nothing. After two
  clicks on the first document one invocation is in flight, and the second click has
  left everything as it was.
\<close>

theorem duplicate_click_counterexample:
  "in_flight (ui_run \<lparr>ui_state = loaded_state, in_flight = []\<rparr>
     [Click_summarize (sample_doc ''a'' ''first''),
      Click_summarize (sample_doc ''a'' ''first'')]) = [sample_doc ''a'' ''first''] \<and>
   ui_run \<lparr>ui_state = loaded_state, in_flight = []\<rparr>
     [Click_summarize (sample_doc ''a'' ''first''),
      Click_summarize (sample_doc ''a'' ''first'')] =
   ui_run \<lparr>ui_state = loaded_state, in_flight = []\<rparr>
     [Click_summarize (sample_doc ''a'' ''first'')] \<and>
   summarize_button (ui_state (ui_run \<lparr>ui_state = loaded_state, in_flight = []\<rparr>
     [Click_summarize (sample_doc ''a'' ''first'')])) (sample_doc ''a'' ''first'') =
     Some \<lparr>disabled = True, spinner = True\<rparr>"
  by (simp add: ui_run_def summarize_button_def card_editing_def generateSummary_start_def
      handler_defs sample_defs)

text \<open>
  C3, amended. The indicator is one cell that holds at most one document
  identifier. A document's button shows the spinner exactly when the cell holds its
  identifier, and it is then disabled, so a click on it starts nothing. The handler
  has no guard of its own: a click on an enabled button always starts an invocation
  and puts the document's identifier into the cell, also when an invocation for that
  document is still in flight; and the settling of any invocation in flight empties
  the cell.
\<close>

theorem summarize_click_guard:
  "(summarize_button st doc = Some btn \<longrightarrow>
      spinner btn = (isSummarizing st = Some (doc_id doc)) \<and> (spinner btn \<longrightarrow> disabled btn)) \<and>
   (isSummarizing (ui_state u) = Some (doc_id doc) \<longrightarrow> ui_step u (Click_summarize doc) = u) \<and>
   (summarize_button (ui_state u) doc = Some btn' \<and> \<not> disabled btn' \<longrightarrow>
      in_flight (ui_step u (Click_summarize doc)) = in_flight u @ [doc] \<and>
      isSummarizing (ui_state (ui_step u (Click_summarize doc))) = Some (doc_id doc)) \<and>
   (d \<in> set (in_flight u) \<longrightarrow>
      isSummarizing (ui_state (ui_step u (Settle_summarize b d))) = None)"
  using spinner_disabled [of st doc btn] click_while_spinner [of u doc]
    click_enabled_fires [of u doc btn'] settle_clears_slot [of d u b]
  by blast

theorem summarize_click_guard_witness:
  "in_flight (ui_run \<lparr>ui_state = loaded_state, in_flight = []\<rparr>
     [Click_summarize (sample_doc ''a'' ''first''),
      Click_summarize (sample_doc ''b'' ''second'')]) =
     [sample_doc ''a'' ''first'', sample_doc ''b'' ''second''] \<and>
   summarize_button (ui_state (ui_run \<lparr>ui_state = loaded_state, in_flight = []\<rparr>
     [Click_summarize (sample_doc ''a'' ''first''),
      Click_summarize (sample_doc ''b'' ''second'')])) (sample_doc ''a'' ''first'') =
     Some \<lparr>disabled = False, spinner = False\<rparr> \<and>
   in_flight (ui_step (ui_run \<lparr>ui_state = loaded_state, in_flight = []\<rparr>
     [Click_summarize (sample_doc ''a'' ''first''),
      Click_summarize (sample_doc ''b'' ''second'')])
     (Click_summarize (sample_doc ''a'' ''first''))) =
     [sample_doc ''a'' ''first'', sample_doc ''b'' ''second'', sample_doc ''a'' ''first''] \<and>
   ui_step (ui_run \<lparr>ui_state = loaded_state, in_flight = []\<rparr>
     [Click_summarize (sample_doc ''a'' ''first'')])
     (Click_summarize (sample_doc ''a'' ''first'')) =
   ui_run \<lparr>ui_state = loaded_state, in_flight = []\<rparr>
     [Click_summarize (sample_doc ''a'' ''first'')] \<and>
   isSummarizing (ui_state (ui_step (ui_run \<lparr>ui_state = loaded_state, in_flight = []\<rparr>
     [Click_summarize (sample_doc ''a'' ''first''),
      Click_summarize (sample_doc ''b'' ''second'')])
     (Settle_summarize sample_backend (sample_doc ''b'' ''second'')))) = None"
proof -
  let ?a = "sample_doc ''a'' ''first''" and ?b = "sample_doc ''b'' ''second''"
  let ?u0 = "\<lparr>ui_state = loaded_state, in_flight = []\<rparr>"
  let ?u1 = "ui_run ?u0 [Click_summarize ?a]"
  let ?u2 = "ui_run ?u0 [Click_summarize ?a, Click_summarize ?b]"
  have u1: "?u1 = \<lparr>ui_state = loaded_state\<lparr>isSummarizing := Some (lit ''a'')\<rparr>,
                    in_flight = [?a]\<rparr>"
    by (simp add: ui_run_def summarize_button_def card_editing_def generateSummary_start_def
        handler_defs sample_defs)
  have u2: "?u2 = \<lparr>ui_state = loaded_state\<lparr>isSummarizing := Some (lit ''b'')\<rparr>,
                    in_flight = [?a, ?b]\<rparr>"
    by (simp add: ui_run_def summarize_button_def card_editing_def generateSummary_start_def
        handler_defs sample_defs sample_ids)
  have btn: "summarize_button (ui_state ?u2) ?a = Some \<lparr>disabled = False, spinner = False\<rparr>"
    unfolding u2
    by (simp add: summarize_button_def card_editing_def sample_defs sample_ids)
  have held: "isSummarizing (ui_state ?u1) = Some (doc_id ?a)"
    unfolding u1 by (simp add: sample_doc_def)
  have pending: "?b \<in> set (in_flight ?u2)"
    unfolding u2 by simp
  have again: "in_flight (ui_step ?u2 (Click_summarize ?a)) = in_flight ?u2 @ [?a]"
    using summarize_click_guard [where u = ?u2 and doc = ?a
        and btn' = "\<lparr>disabled = False, spinner = False\<rparr>"] btn
    by simp
  have blocked: "ui_step ?u1 (Click_summarize ?a) = ?u1"
    using summarize_click_guard [where u = ?u1 and doc = ?a] held by blast
  have cleared: "isSummarizing (ui_state (ui_step ?u2 (Settle_summarize sample_backend ?b))) = None"
    using summarize_click_guard [where u = ?u2 and d = ?b and b = sample_backend] pending
    by blast
  have fl: "in_flight ?u2 = [?a, ?b]" unfolding u2 by simp
  from fl btn again blocked cleared show ?thesis by simp
qed

section \<open>The session observer: unmount\<close>

lemma on_session_simps:
  "actions (on_session s st) = actions st @ setter_calls s"
  "mounted (on_session s st) = mounted st"
  "listening (on_session s st) = listening st"
  "getSession_pending (on_session s st) = getSession_pending st"
  by (simp_all add: on_session_def Let_def)


lemma on_session_mounted:
  "mounted st \<Longrightarrow>
   user (on_session s st) = map_option session_user s \<and> session (on_session s st) = s \<and>
   \<not> app_isLoading (on_session s st)"
  by (simp add: on_session_def Let_def)

lemma late_updates_setters:
  "filter is_setter (late_updates post) = late_updates post"
  "Unsubscribe_called \<notin> set (late_updates post)"
  by (auto simp: late_updates_def setter_calls_def split: option.splits app_event.splits)



lemma unmounted_settled_run:
  "\<not> mounted st \<Longrightarrow> \<not> listening st \<Longrightarrow> \<not> getSession_pending st \<Longrightarrow>
   foldl app_step st post = st"
proof (induction post arbitrary: st)
  case Nil
  then show ?case by simp
next
  case (Cons ev post)
  then have "app_step st ev = st" by (cases ev) simp_all
  with Cons show ?case by simp
qed

lemma unmounted_run:
  "\<not> mounted st \<Longrightarrow> \<not> listening st \<Longrightarrow>
   actions (foldl app_step st post) =
     actions st @ (if getSession_pending st then late_updates post else [])"
proof (induction post arbitrary: st)
  case Nil
  then show ?case by (simp add: late_updates_def)
next
  case (Cons ev post)
  show ?case
  proof (cases "getSession_pending st")
    case False
    with Cons.prems have "foldl app_step st (ev # post) = st"
      by (intro unmounted_settled_run)
    with False show ?thesis by simp
  next
    case True
    show ?thesis
    proof (cases ev)
      case (Auth_state_change x s)
      with Cons True show ?thesis by (simp add: late_updates_def)
    next
      case (GetSession_fulfilled s)
      let ?st = "(on_session s st)\<lparr>getSession_pending := False\<rparr>"
      have "foldl app_step ?st post = ?st"
        using Cons.prems by (intro unmounted_settled_run) (simp_all add: on_session_simps)
      with GetSession_fulfilled True show ?thesis
        by (simp add: late_updates_def on_session_simps)
    next
      case GetSession_rejected
      let ?st = "st\<lparr>getSession_pending := False\<rparr>"
      have "foldl app_step ?st post = ?st"
        using Cons.prems by (intro unmounted_settled_run) simp_all
      with GetSession_rejected True show ?thesis by (simp add: late_updates_def)
    next
      case Unmount
      with Cons True show ?thesis by (simp add: late_updates_def)
    qed
  qed
qed

lemma mounted_run:
  "mounted st \<Longrightarrow> listening st \<Longrightarrow> Unmount \<notin> set pre \<Longrightarrow>
   Unsubscribe_called \<notin> set (actions st) \<Longrightarrow>
   mounted (foldl app_step st pre) \<and> listening (foldl app_step st pre) \<and>
   Unsubscribe_called \<notin> set (actions (foldl app_step st pre)) \<and>
   getSession_pending (foldl app_step st pre) =
     (getSession_pending st \<and> find settles pre = None)"
proof (induction pre arbitrary: st)
  case Nil
  then show ?case by simp
next
  case (Cons ev pre)
  have step: "mounted (app_step st ev) \<and> listening (app_step st ev) \<and>
     Unsubscribe_called \<notin> set (actions (app_step st ev)) \<and>
     getSession_pending (app_step st ev) = (getSession_pending st \<and> \<not> settles ev)"
    using Cons.prems by (cases ev) (auto simp: on_session_simps setter_calls_def)
  from Cons.prems have "Unmount \<notin> set pre" by simp
  with step Cons.IH [of "app_step st ev"] show ?case by auto
qed

lemma mount_initial:
  "mounted (mount initial_app)" "listening (mount initial_app)"
  "getSession_pending (mount initial_app)"
  "Unsubscribe_called \<notin> set (actions (mount initial_app))"
  by (simp_all add: mount_def initial_app_def)


lemma actions_after_unmount:
  assumes "Unmount \<notin> set pre"
  shows "\<exists>A. Unsubscribe_called \<notin> set A \<and>
     actions (app_run (pre @ Unmount # post)) =
       A @ Unsubscribe_called # (if find settles pre = None then late_updates post else [])"
proof -
  let ?s1 = "foldl app_step (mount initial_app) pre"
  let ?s2 = "app_step ?s1 Unmount"
  have m: "mounted ?s1 \<and> listening ?s1 \<and> Unsubscribe_called \<notin> set (actions ?s1) \<and>
     getSession_pending ?s1 = (find settles pre = None)"
    using mounted_run [OF mount_initial(1,2) assms mount_initial(4)] mount_initial(3) by simp
  then have s2: "\<not> mounted ?s2" "\<not> listening ?s2"
    "getSession_pending ?s2 = (find settles pre = None)"
    "actions ?s2 = actions ?s1 @ [Unsubscribe_called]"
    by simp_all
  have "actions (foldl app_step ?s2 post) =
        actions ?s2 @ (if getSession_pending ?s2 then late_updates post else [])"
    using s2(1,2) by (rule unmounted_run)
  moreover have "app_run (pre @ Unmount # post) = foldl app_step ?s2 post"
    by (simp only: app_run_def foldl_append foldl_Cons)
  ultimately have "actions (app_run (pre @ Unmount # post)) =
     actions ?s1 @ Unsubscribe_called #
       (if find settles pre = None then late_updates post else [])"
    by (simp only: s2(3,4)) simp
  with m show ?thesis by blast
qed

lemma dropWhile_first: "x \<notin> set A \<Longrightarrow> dropWhile (\<lambda>a. a \<noteq> x) (A @ x # B) = x # B"
  by (induction A) auto


lemma updates_after_unmount_run:
  assumes "Unmount \<notin> set pre"
  shows "updates_after_unmount (actions (app_run (pre @ Unmount # post))) =
     (if find settles pre = None then late_updates post else [])"
proof -
  from actions_after_unmount [OF assms, of post] obtain A where
    A: "Unsubscribe_called \<notin> set A"
       "actions (app_run (pre @ Unmount # post)) =
          A @ Unsubscribe_called # (if find settles pre = None then late_updates post else [])"
    by auto
  show ?thesis
    unfolding updates_after_unmount_def A(2) dropWhile_first [OF A(1)]
    by (simp add: late_updates_setters)
qed




end
